theory Spec2Isabelle
  imports Main "HOL-Library.Word"
begin

section \<open>Strings and the Go standard library functions the package calls\<close>

text \<open>
  A Go string is modelled as a \<^typ>\<open>string\<close>, one \<^typ>\<open>char\<close> per code point below 256.
  The package only ever inspects the ASCII characters dot, slash and backslash and the
  white space of \<open>strings.TrimSpace\<close>, so nothing it does depends on how a code point is
  encoded.
\<close>

definition backslash :: char where
  "backslash = CHR 0x5C"

text \<open>
  \<open>unicode.IsSpace\<close> on the Latin-1 range: tab, line feed, vertical tab, form feed,
  carriage return, space, NEL (U+0085) and NBSP (U+00A0).
\<close>

definition isSpace :: "char \<Rightarrow> bool" where
  "isSpace ch \<longleftrightarrow>
     ch = CHR 0x09 \<or> ch = CHR 0x0A \<or> ch = CHR 0x0B \<or> ch = CHR 0x0C \<or>
     ch = CHR 0x0D \<or> ch = CHR 0x20 \<or> ch = CHR 0x85 \<or> ch = CHR 0xA0"

text \<open>\<open>strings.TrimSpace\<close>: the slice between the first and the last character that is not white space.\<close>

definition TrimSpace :: "string \<Rightarrow> string" where
  "TrimSpace s = rev (dropWhile isSpace (rev (dropWhile isSpace s)))"

text \<open>
  The host operating system decides the path separator of \<open>path/filepath\<close>:
  \<open>'/'\<close> on Unix-like hosts, the backslash on Windows, where \<open>os.IsPathSeparator\<close>
  accepts the forward slash as well.
\<close>

datatype goos = Unix | Windows

fun Separator :: "goos \<Rightarrow> char" where
  "Separator Unix = CHR ''/''"
| "Separator Windows = backslash"

fun IsPathSeparator :: "goos \<Rightarrow> char \<Rightarrow> bool" where
  "IsPathSeparator Unix ch = (ch = CHR ''/'')"
| "IsPathSeparator Windows ch = (ch = backslash \<or> ch = CHR ''/'')"

text \<open>
  \<open>filepath.ToSlash\<close> and \<open>filepath.FromSlash\<close>: the identity where the separator is the
  slash, otherwise \<open>strings.ReplaceAll\<close> of one single character by the other.
\<close>

definition ToSlash :: "goos \<Rightarrow> string \<Rightarrow> string" where
  "ToSlash os path =
     (if Separator os = CHR ''/'' then path
      else map (\<lambda>ch. if ch = Separator os then CHR ''/'' else ch) path)"

definition FromSlash :: "goos \<Rightarrow> string \<Rightarrow> string" where
  "FromSlash os path =
     (if Separator os = CHR ''/'' then path
      else map (\<lambda>ch. if ch = CHR ''/'' then Separator os else ch) path)"

text \<open>
  \<open>filepath.Ext\<close> walks the path from its last character towards the front; it stops with
  the empty string at a path separator and with the suffix starting at the dot when it meets
  a dot. \<open>Ext_loop\<close> is that loop: its second argument is the part of the path not yet
  visited, reversed, and its third argument the part already walked over.
\<close>

fun Ext_loop :: "goos \<Rightarrow> string \<Rightarrow> string \<Rightarrow> string" where
  "Ext_loop os [] seen = []"
| "Ext_loop os (ch # front) seen =
     (if IsPathSeparator os ch then []
      else if ch = CHR ''.'' then ch # seen
      else Ext_loop os front (ch # seen))"

definition Ext :: "goos \<Rightarrow> string \<Rightarrow> string" where
  "Ext os path = Ext_loop os (rev path) []"

text \<open>The final element of a path: what follows its last separator.\<close>

definition lastElement :: "goos \<Rightarrow> string \<Rightarrow> string" where
  "lastElement os path = rev (takeWhile (\<lambda>ch. \<not> IsPathSeparator os ch) (rev path))"

subsection \<open>Errors\<close>

text \<open>
  A Go \<open>error\<close> value. \<open>ErrorString\<close> is what \<open>errors.New\<close> builds, \<open>NotExist\<close> is a path
  error that \<open>os.IsNotExist\<close> recognises, \<open>Foreign\<close> is any other error of the operating
  system, of the embedded bundle or of the template engine.
\<close>

datatype error = ErrorString string | NotExist string | Foreign string

fun IsNotExist :: "error option \<Rightarrow> bool" where
  "IsNotExist (Some (NotExist p)) = True"
| "IsNotExist _ = False"

fun Error :: "error \<Rightarrow> string" where
  "Error (ErrorString msg) = msg"
| "Error (NotExist p) = p @ '': file does not exist''"
| "Error (Foreign msg) = msg"

definition ErrBasePathNotSet :: error where
  "ErrBasePathNotSet = ErrorString ''templates: no value set for TemplatesBasePath''"

definition ErrInvalidSubDir :: error where
  "ErrInvalidSubDir =
     ErrorString ''templates: empty or all whitespace string provided for TemplatesSubDirs is not allowed''"

definition ErrNoEmbeddedFilesProvided :: error where
  "ErrNoEmbeddedFilesProvided = ErrorString ''templates: no embedded files provided''"

section \<open>Template helper functions\<close>

subsection \<open>\<open>time.Parse\<close> with the layout \<open>2006-01-02\<close>\<close>

record Time =
  year :: nat
  month :: nat
  day :: nat

definition isDigit :: "char \<Rightarrow> bool" where
  "isDigit ch \<longleftrightarrow> (48::nat) \<le> of_char ch \<and> of_char ch \<le> (57::nat)"

definition digit :: "char \<Rightarrow> nat" where
  "digit ch = of_char ch - 48"

definition isLeap :: "nat \<Rightarrow> bool" where
  "isLeap y \<longleftrightarrow> y mod 4 = 0 \<and> (y mod 100 \<noteq> 0 \<or> y mod 400 = 0)"

definition daysIn :: "nat \<Rightarrow> nat \<Rightarrow> nat" where
  "daysIn m y =
     (if m = 2 then (if isLeap y then 29 else 28)
      else if m = 4 \<or> m = 6 \<or> m = 9 \<or> m = 11 then 30
      else 31)"

definition errBad :: error where
  "errBad = Foreign ''parsing time: bad value''"

text \<open>\<open>getnum(s, fixed = true)\<close>: exactly two digits.\<close>

fun getnum2 :: "string \<Rightarrow> error + (nat \<times> string)" where
  "getnum2 (a # b # rest) =
     (if isDigit a \<and> isDigit b then Inr (digit a * 10 + digit b, rest) else Inl errBad)"
| "getnum2 _ = Inl errBad"

text \<open>\<open>skip(value, "-")\<close>: the literal dash of the layout must be the next character.\<close>

fun skipDash :: "string \<Rightarrow> error + string" where
  "skipDash (ch # rest) = (if ch = CHR ''-'' then Inr rest else Inl errBad)"
| "skipDash [] = Inl errBad"

text \<open>
  The four-digit year (\<open>stdLongYear\<close>): four characters are taken, the first must be a
  digit, and \<open>atoi\<close> rejects the slice unless all of them are.
\<close>

fun getyear :: "string \<Rightarrow> error + (nat \<times> string)" where
  "getyear (a # b # c # d # rest) =
     (if isDigit a \<and> isDigit b \<and> isDigit c \<and> isDigit d
      then Inr (digit a * 1000 + digit b * 100 + digit c * 10 + digit d, rest)
      else Inl errBad)"
| "getyear _ = Inl errBad"

text \<open>
  \<open>time.Parse("2006-01-02", value)\<close>: year, dash, two-digit month (checked against 1..12 at
  once), dash, two-digit day, no text left over, and last the check of the day against the
  length of the month.
\<close>

definition time_Parse :: "string \<Rightarrow> error + Time" where
  "time_Parse v =
     (case getyear v of
        Inl e \<Rightarrow> Inl e
      | Inr (y, v1) \<Rightarrow>
     (case skipDash v1 of
        Inl e \<Rightarrow> Inl e
      | Inr v2 \<Rightarrow>
     (case getnum2 v2 of
        Inl e \<Rightarrow> Inl e
      | Inr (m, v3) \<Rightarrow>
     (if m = 0 \<or> 12 < m then Inl (Foreign ''parsing time: month out of range'')
      else
     (case skipDash v3 of
        Inl e \<Rightarrow> Inl e
      | Inr v4 \<Rightarrow>
     (case getnum2 v4 of
        Inl e \<Rightarrow> Inl e
      | Inr (d, v5) \<Rightarrow>
     (if v5 \<noteq> [] then Inl (Foreign ''parsing time: extra text'')
      else if d < 1 \<or> daysIn m y < d then Inl (Foreign ''parsing time: day out of range'')
      else Inr \<lparr>year = y, month = m, day = d\<rparr>)))))))"

subsection \<open>The helpers of templates-templatefuncs.go\<close>

text \<open>
  \<open>FuncDateReformat\<close>. The first argument stands for \<open>Time.Format\<close>, whose result for an
  arbitrary caller-chosen layout the function returns as it is.
\<close>

definition FuncDateReformat :: "(Time \<Rightarrow> string \<Rightarrow> string) \<Rightarrow> string \<Rightarrow> string \<Rightarrow> string" where
  "FuncDateReformat Format date format =
     (case time_Parse date of
        Inl err \<Rightarrow> date
      | Inr t \<Rightarrow> Format t format)"

text \<open>\<open>FuncAddInt\<close> on Go's \<open>int\<close> of a 64-bit platform: addition wraps around.\<close>

definition FuncAddInt :: "64 word \<Rightarrow> 64 word \<Rightarrow> 64 word" where
  "FuncAddInt x y = x + y"

section \<open>The environment of the package\<close>

text \<open>A directory entry (\<open>fs.DirEntry\<close>): the name of the entry and whether it is a directory.\<close>

record DirEntry =
  Name :: string
  IsDir :: bool

text \<open>
  The host: its operating system, \<open>filepath.Join\<close> of two elements (the package never looks
  into a joined path, so every implementation is admitted), \<open>os.Stat\<close> reduced to its error
  result, and \<open>os.ReadDir\<close>.
\<close>

record host =
  GOOS :: goos
  filepath_Join :: "string \<Rightarrow> string \<Rightarrow> string"
  os_Stat :: "string \<Rightarrow> error option"
  os_ReadDir :: "string \<Rightarrow> error + DirEntry list"

text \<open>
  An \<open>embed.FS\<close>. \<open>None\<close> is the zero value \<open>embed.FS{}\<close>, which holds no files;
  \<open>Some rd\<close> is a bundle with \<open>rd\<close> as its \<open>ReadDir\<close>.
\<close>

type_synonym embed_FS = "(string \<Rightarrow> error + DirEntry list) option"

definition embed_ReadDir :: "embed_FS \<Rightarrow> string \<Rightarrow> error + DirEntry list" where
  "embed_ReadDir fs name =
     (case fs of
        None \<Rightarrow> (if name = ''.'' then Inr [] else Inl (NotExist name))
      | Some rd \<Rightarrow> rd name)"

text \<open>
  What is handed to a template when it is executed, and the template engine:
  \<open>ParseFiles\<close> is \<open>template.New("").Funcs(funcs).ParseFiles(paths...)\<close>, and
  \<open>ExecuteTemplate\<close> gives the chunks the template wrote to the writer and its error.
\<close>

record 'd RenderData =
  data_Development :: bool
  data_UseLocalFiles :: bool
  data_CacheBustFiles :: "string \<rightharpoonup> string"
  data_InjectedData :: 'd

record ('f, 't, 'd) engine =
  ParseFiles :: "'f \<Rightarrow> string list \<Rightarrow> error + 't"
  ExecuteTemplate :: "'t \<Rightarrow> string \<Rightarrow> 'd RenderData \<Rightarrow> string list \<times> error option"

text \<open>
  An \<open>http.ResponseWriter\<close> is modelled by what was done to it, in order: a chunk written
  by the template, or a call of \<open>http.Error\<close> with its message and status code.
\<close>

datatype rw_event = Write string | http_Error string nat

definition StatusInternalServerError :: nat where
  "StatusInternalServerError = 500"

definition StatusNotFound :: nat where
  "StatusNotFound = 404"

text \<open>\<open>log.Println\<close>: the operands separated by spaces, added as one line to the log.\<close>

fun sprintln :: "string list \<Rightarrow> string" where
  "sprintln [] = []"
| "sprintln [a] = a"
| "sprintln (a # b # rest) = a @ '' '' @ sprintln (b # rest)"

definition log_Println :: "string list \<Rightarrow> string list \<Rightarrow> string list" where
  "log_Println operands lg = lg @ [sprintln operands]"

section \<open>The configuration\<close>

record ('f, 't) Config =
  Development :: bool
  UseLocalFiles :: bool
  BasePath :: string
  SubDirs :: "string list"
  Extension :: string
  UseEmbedded :: bool
  EmbeddedFS :: embed_FS
  FuncMap :: 'f
  CacheBustingFilePairs :: "string \<rightharpoonup> string"
  templates :: "string \<rightharpoonup> 't"

definition defaultExtension :: string where
  "defaultExtension = ''html''"

subsection \<open>validate\<close>

text \<open>
  The loop over \<open>c.SubDirs\<close> of \<open>validate\<close>. It writes each checked name back into the
  slice, so the names before a failing one stay normalised and the rest stays as it was.
\<close>

fun validateSubDirs :: "host \<Rightarrow> string \<Rightarrow> string list \<Rightarrow> error option \<times> string list" where
  "validateSubDirs h base [] = (None, [])"
| "validateSubDirs h base (p0 # rest) =
     (let p = TrimSpace p0 in
      if p = [] then (Some ErrInvalidSubDir, p0 # rest)
      else
        (let p' = FromSlash (GOOS h) p;
             err = os_Stat h (filepath_Join h base p')
         in if IsNotExist err then (err, p0 # rest)
            else (case validateSubDirs h base rest of
                    (r, rest') \<Rightarrow> (r, p' # rest'))))"

definition validate :: "host \<Rightarrow> ('f, 't) Config \<Rightarrow> error option \<times> ('f, 't) Config" where
  "validate h c0 =
     (let c1 = c0\<lparr>BasePath := TrimSpace (BasePath c0)\<rparr> in
      if BasePath c1 = [] then (Some ErrBasePathNotSet, c1)
      else if \<not> UseEmbedded c1 \<and> IsNotExist (os_Stat h (BasePath c1))
      then (os_Stat h (BasePath c1), c1)
      else
        (let (err, subs) =
               (if \<not> UseEmbedded c1 then validateSubDirs h (BasePath c1) (SubDirs c1)
                else (None, SubDirs c1));
             c2 = c1\<lparr>SubDirs := subs\<rparr>
         in if err \<noteq> None then (err, c2)
            else
              (let ext = TrimSpace (Extension c2);
                   c3 = c2\<lparr>Extension := (if ext = [] then defaultExtension else ext)\<rparr>
               in if UseEmbedded c3 \<and> EmbeddedFS c3 = None
                  then (Some ErrNoEmbeddedFilesProvided, c3)
                  else (None, c3))))"

subsection \<open>buildPathsToFiles\<close>

definition readFunc :: "host \<Rightarrow> ('f, 't) Config \<Rightarrow> string \<Rightarrow> error + DirEntry list" where
  "readFunc h c = (if UseEmbedded c then embed_ReadDir (EmbeddedFS c) else os_ReadDir h)"

text \<open>The directory path that is listed: with forward slashes for an embedded bundle.\<close>

definition listingPath :: "host \<Rightarrow> ('f, 't) Config \<Rightarrow> string \<Rightarrow> string" where
  "listingPath h c pathToDirectory =
     (if UseEmbedded c then ToSlash (GOOS h) pathToDirectory else pathToDirectory)"

text \<open>The complete path to one file of the directory, as the loop builds it.\<close>

definition completePathToFile :: "host \<Rightarrow> ('f, 't) Config \<Rightarrow> string \<Rightarrow> string \<Rightarrow> string" where
  "completePathToFile h c pathToDirectory name =
     (let joined = filepath_Join h pathToDirectory name
      in if UseEmbedded c then ToSlash (GOOS h) joined else joined)"

text \<open>The loop over the directory entries; \<open>paths\<close> is the slice appended to.\<close>

fun collectPaths ::
  "host \<Rightarrow> ('f, 't) Config \<Rightarrow> string \<Rightarrow> DirEntry list \<Rightarrow> string list \<Rightarrow> string list" where
  "collectPaths h c dir [] paths = paths"
| "collectPaths h c dir (f # files) paths =
     (if IsDir f then collectPaths h c dir files paths
      else if Ext (GOOS h) (Name f) \<noteq> ''.'' @ Extension c then collectPaths h c dir files paths
      else collectPaths h c dir files (paths @ [completePathToFile h c dir (Name f)]))"

definition buildPathsToFiles :: "host \<Rightarrow> ('f, 't) Config \<Rightarrow> string \<Rightarrow> error + string list" where
  "buildPathsToFiles h c pathToDirectory =
     (let dir = listingPath h c pathToDirectory in
      case readFunc h c dir of
        Inl err \<Rightarrow> Inl err
      | Inr files \<Rightarrow> Inr (collectPaths h c dir files []))"

subsection \<open>Build\<close>

text \<open>The complete path to a subdirectory, as the loop of \<open>Build\<close> computes it.\<close>

definition completePathToSubDir :: "host \<Rightarrow> ('f, 't) Config \<Rightarrow> string \<Rightarrow> string" where
  "completePathToSubDir h c subDir =
     (let joined = filepath_Join h (BasePath c) subDir
      in if UseEmbedded c then ToSlash (GOOS h) joined else joined)"

text \<open>
  The loop over \<open>c.SubDirs\<close> of \<open>Build\<close>. \<open>tm\<close> is the map \<open>c.templates\<close>, written in
  place, and \<open>lg\<close> the log; a \<open>return innerErr\<close> leaves both as they are at that moment.
\<close>

fun buildSubDirs ::
  "('f, 't, 'd) engine \<Rightarrow> host \<Rightarrow> ('f, 't) Config \<Rightarrow> string list \<Rightarrow> string list \<Rightarrow>
   (string \<rightharpoonup> 't) \<Rightarrow> string list \<Rightarrow> error option \<times> (string \<rightharpoonup> 't) \<times> string list" where
  "buildSubDirs eng h c baseFilePaths [] tm lg = (None, tm, lg)"
| "buildSubDirs eng h c baseFilePaths (subDir # rest) tm lg =
     (case buildPathsToFiles h c (completePathToSubDir h c subDir) of
        Inl innerErr \<Rightarrow> (Some innerErr, tm, lg)
      | Inr subdirFilepaths \<Rightarrow>
          if subdirFilepaths = [] then buildSubDirs eng h c baseFilePaths rest tm lg
          else
            (case ParseFiles eng (FuncMap c) (subdirFilepaths @ baseFilePaths) of
               Inl innerErr \<Rightarrow>
                 (Some innerErr, tm,
                  log_Println [''templates.Build'',
                    ''error parsing files at subdir '' @ [CHR 0x27] @ subDir @ [CHR 0x27],
                    Error innerErr] lg)
             | Inr t \<Rightarrow> buildSubDirs eng h c baseFilePaths rest (tm(subDir \<mapsto> t)) lg))"

text \<open>
  The base group of \<open>Build\<close>: when the base directory has template files they are parsed
  alone and stored under the empty name.
\<close>

definition buildBase ::
  "('f, 't, 'd) engine \<Rightarrow> ('f, 't) Config \<Rightarrow> string list \<Rightarrow> (string \<rightharpoonup> 't) \<Rightarrow> string list \<Rightarrow>
   error option \<times> (string \<rightharpoonup> 't) \<times> string list" where
  "buildBase eng c baseFilePaths tm lg =
     (if baseFilePaths \<noteq> [] then
        (case ParseFiles eng (FuncMap c) baseFilePaths of
           Inl innerErr \<Rightarrow>
             (Some innerErr, tm,
              log_Println [''templates.Build'', ''error parsing files at base path'',
                Error innerErr] lg)
         | Inr t \<Rightarrow> (None, tm('''' \<mapsto> t), lg))
      else (None, tm, lg))"

text \<open>
  \<open>Build\<close> returns its error, the configuration as the call leaves it (\<open>validate\<close> and the
  writes to \<open>c.templates\<close> happen in place) and the log.
\<close>

definition Build ::
  "('f, 't, 'd) engine \<Rightarrow> host \<Rightarrow> ('f, 't) Config \<Rightarrow> string list \<Rightarrow>
   error option \<times> ('f, 't) Config \<times> string list" where
  "Build eng h c0 lg =
     (case validate h c0 of
        (Some err, c1) \<Rightarrow> (Some err, c1, lg)
      | (None, c1) \<Rightarrow>
          (let c = c1\<lparr>templates := Map.empty\<rparr> in
           case buildPathsToFiles h c (BasePath c) of
             Inl err \<Rightarrow> (Some err, c, lg)
           | Inr baseFilePaths \<Rightarrow>
               (case buildBase eng c baseFilePaths (templates c) lg of
                  (Some innerErr, tm, lg1) \<Rightarrow> (Some innerErr, c\<lparr>templates := tm\<rparr>, lg1)
                | (None, tm, lg1) \<Rightarrow>
                    (case buildSubDirs eng h c baseFilePaths (SubDirs c) tm lg1 of
                       (err, tm', lg') \<Rightarrow> (err, c\<lparr>templates := tm'\<rparr>, lg')))))"

subsection \<open>Show\<close>

text \<open>The name of the template that is executed: the extension is added when \<open>Ext\<close> finds none.\<close>

definition templateNameWithExt :: "host \<Rightarrow> ('f, 't) Config \<Rightarrow> string \<Rightarrow> string" where
  "templateNameWithExt h c templateName =
     (let ext = Ext (GOOS h) templateName
      in if ext = [] then templateName @ ''.'' @ Extension c else templateName)"

text \<open>The data a template is executed with: three fields of the configuration and the caller's data.\<close>

definition renderData :: "('f, 't) Config \<Rightarrow> 'd \<Rightarrow> 'd RenderData" where
  "renderData c injectedData =
     \<lparr>data_Development = Development c,
      data_UseLocalFiles = UseLocalFiles c,
      data_CacheBustFiles = CacheBustingFilePairs c,
      data_InjectedData = injectedData\<rparr>"

text \<open>\<open>Show\<close> returns the response writer and the log as the call leaves them.\<close>

definition Show ::
  "('f, 't, 'd) engine \<Rightarrow> host \<Rightarrow> ('f, 't) Config \<Rightarrow> rw_event list \<Rightarrow> string \<Rightarrow> string \<Rightarrow> 'd \<Rightarrow>
   string list \<Rightarrow> rw_event list \<times> string list" where
  "Show eng h c w subdir templateName injectedData lg =
     (let data = renderData c injectedData;
          name = templateNameWithExt h c templateName
      in case templates c subdir of
           None \<Rightarrow>
             (let err = ErrorString (''templates.Show: invalid subdirectory '' @ [CHR 0x27] @ subdir @ [CHR 0x27])
              in (w @ [http_Error (Error err) StatusInternalServerError], lg))
         | Some t \<Rightarrow>
             (case ExecuteTemplate eng t name data of
                (out, None) \<Rightarrow> (w @ map Write out, lg)
              | (out, Some err) \<Rightarrow>
                  (w @ map Write out @ [http_Error (Error err) StatusNotFound],
                   log_Println [''templates.Show: error during execute'', Error err] lg)))"

section \<open>Notions used to state the properties\<close>

text \<open>A string that \<open>strings.TrimSpace\<close> leaves alone: empty, or without white space at either end.\<close>

definition trimmed :: "string \<Rightarrow> bool" where
  "trimmed s \<longleftrightarrow> s = [] \<or> (\<not> isSpace (hd s) \<and> \<not> isSpace (last s))"

text \<open>A directory entry that discovery keeps: no directory, and the extension of its name is the configured one.\<close>

definition isTemplateFile :: "host \<Rightarrow> ('f, 't) Config \<Rightarrow> DirEntry \<Rightarrow> bool" where
  "isTemplateFile h c f \<longleftrightarrow> \<not> IsDir f \<and> Ext (GOOS h) (Name f) = ''.'' @ Extension c"

text \<open>A path in which every separator of the host is a forward slash.\<close>

definition slashSeparated :: "goos \<Rightarrow> string \<Rightarrow> bool" where
  "slashSeparated os path \<longleftrightarrow> list_all (\<lambda>ch. \<not> IsPathSeparator os ch \<or> ch = CHR ''/'') path"

text \<open>The template files of a directory of the host, as \<open>os.ReadDir\<close> lists them.\<close>

definition templateFilesIn :: "host \<Rightarrow> ('f, 't) Config \<Rightarrow> string \<Rightarrow> DirEntry list" where
  "templateFilesIn h c dir =
     (case os_ReadDir h dir of Inl err \<Rightarrow> [] | Inr files \<Rightarrow> filter (isTemplateFile h c) files)"

section \<open>A template tree to run the package on\<close>

text \<open>
  \<open>filepath.Join\<close> of two non-empty elements that hold no dot elements and no doubled
  separators: the elements joined by the separator of the host, and every slash turned into
  that separator by \<open>Clean\<close>.
\<close>

definition cleanJoin :: "goos \<Rightarrow> string \<Rightarrow> string \<Rightarrow> string" where
  "cleanJoin os dir name = FromSlash os (dir @ [Separator os] @ name)"

definition regularFile :: "string \<Rightarrow> DirEntry" where
  "regularFile n = \<lparr>Name = n, IsDir = False\<rparr>"

definition directory :: "string \<Rightarrow> DirEntry" where
  "directory n = \<lparr>Name = n, IsDir = True\<rparr>"

text \<open>
  The tree: two shared files in \<open>templates\<close>, a page and two other files in \<open>app\<close>, a
  file that does not parse in \<open>bad\<close>, and no template at all in \<open>help\<close>.
\<close>

definition treeReadDir :: "string \<Rightarrow> error + DirEntry list" where
  "treeReadDir p =
     (if p = ''templates'' then
        Inr [directory ''app'', directory ''bad'', regularFile ''footer.html'', regularFile ''header.html'',
             directory ''help'']
      else if p = ''templates/app'' then
        Inr [regularFile ''index.html'', regularFile ''notes.txt'', regularFile ''report.html.bak'']
      else if p = ''templates/bad'' then Inr [regularFile ''broken.html'']
      else if p = ''templates/help'' then Inr [regularFile ''readme.txt'']
      else Inl (NotExist p))"

definition treeStat :: "string \<Rightarrow> error option" where
  "treeStat p = (case treeReadDir p of Inl err \<Rightarrow> Some err | Inr files \<Rightarrow> None)"

definition unixHost :: host where
  "unixHost = \<lparr>GOOS = Unix, filepath_Join = cleanJoin Unix, os_Stat = treeStat,
                os_ReadDir = treeReadDir\<rparr>"

text \<open>A Windows host with nothing on its disk; the tree is there as an embedded bundle only.\<close>

definition windowsHost :: host where
  "windowsHost = \<lparr>GOOS = Windows, filepath_Join = cleanJoin Windows,
                   os_Stat = (\<lambda>p. Some (NotExist p)), os_ReadDir = (\<lambda>p. Inl (NotExist p))\<rparr>"

text \<open>
  An engine whose compiled group is the list of the files it was given. It rejects
  \<open>broken.html\<close>, and a group defines the templates named after its files in \<open>templates\<close>
  and \<open>templates/app\<close>.
\<close>

definition brokenError :: error where
  "brokenError = Foreign ''template: broken.html:1: unexpected EOF''"

definition treeEngine :: "(unit, string list, unit) engine" where
  "treeEngine =
     \<lparr>ParseFiles = (\<lambda>funcs paths.
        if ''templates/bad/broken.html'' \<in> set paths then Inl brokenError else Inr paths),
      ExecuteTemplate = (\<lambda>t name data.
        if (''templates/app/'' @ name) \<in> set t \<or> (''templates/'' @ name) \<in> set t
        then ([''<html>'', name, ''</html>''], None)
        else ([], Some (Foreign (''html/template: '' @ name @ '' is undefined''))))\<rparr>"

text \<open>
  \<open>NewOnDiskConfig\<close> and \<open>NewEmbeddedConfig\<close> on the tree, with a registry left over from
  an earlier build.
\<close>

definition onDiskConfig :: "string \<Rightarrow> string list \<Rightarrow> (unit, string list) Config" where
  "onDiskConfig basePath subdirs =
     \<lparr>Development = False, UseLocalFiles = False, BasePath = basePath, SubDirs = subdirs,
      Extension = defaultExtension, UseEmbedded = False, EmbeddedFS = None, FuncMap = (),
      CacheBustingFilePairs = Map.empty, templates = [''old'' \<mapsto> [''stale.html'']]\<rparr>"

definition embeddedConfig :: "string \<Rightarrow> string list \<Rightarrow> (unit, string list) Config" where
  "embeddedConfig basePath subdirs =
     \<lparr>Development = False, UseLocalFiles = False, BasePath = basePath, SubDirs = subdirs,
      Extension = defaultExtension, UseEmbedded = True, EmbeddedFS = Some treeReadDir,
      FuncMap = (), CacheBustingFilePairs = Map.empty, templates = [''old'' \<mapsto> [''stale.html'']]\<rparr>"

text \<open>The registry a build of the tree with the subdirectories \<open>app\<close> and \<open>help\<close> leaves.\<close>

definition treeRegistry :: "string \<rightharpoonup> string list" where
  "treeRegistry =
     ['''' \<mapsto> [''templates/footer.html'', ''templates/header.html''],
      ''app'' \<mapsto> [''templates/app/index.html'', ''templates/footer.html'',
                    ''templates/header.html'']]"

definition builtConfig :: "(unit, string list) Config" where
  "builtConfig = (onDiskConfig ''templates'' [''app'', ''help''])\<lparr>templates := treeRegistry\<rparr>"

text \<open>The same tree with the subdirectory \<open>bad\<close> between the two.\<close>

definition badConfig :: "(unit, string list) Config" where
  "badConfig = onDiskConfig ''templates'' [''app'', ''bad'', ''help'']"

section \<open>Auxiliary facts\<close>

subsection \<open>Trimming and validation\<close>

lemma hd_rev_dropWhile_rev:
  assumes "dropWhile P (rev xs) \<noteq> []"
  shows "hd (rev (dropWhile P (rev xs))) = hd xs"
proof -
  have "rev (takeWhile P (rev xs) @ dropWhile P (rev xs)) = xs"
    by (simp only: takeWhile_dropWhile_id rev_rev_ident)
  then have "rev (dropWhile P (rev xs)) @ rev (takeWhile P (rev xs)) = xs"
    by (simp only: rev_append)
  then have "hd xs = hd (rev (dropWhile P (rev xs)) @ rev (takeWhile P (rev xs)))"
    by simp
  also have "\<dots> = hd (rev (dropWhile P (rev xs)))"
    using assms by (simp only: hd_append rev_is_Nil_conv if_False)
  finally show ?thesis by simp
qed

lemma TrimSpace_trimmed: "trimmed (TrimSpace s)"
proof -
  let ?a = "dropWhile isSpace s"
  let ?b = "dropWhile isSpace (rev ?a)"
  show ?thesis
  proof (cases "?b = []")
    case True
    then show ?thesis by (simp add: trimmed_def TrimSpace_def)
  next
    case False
    then have nb: "\<not> isSpace (hd ?b)" by (rule hd_dropWhile)
    have ne: "?a \<noteq> []"
    proof
      assume a: "?a = []"
      have "?b = []" unfolding a by simp
      with False show False by blast
    qed
    then have na: "\<not> isSpace (hd ?a)" by (rule hd_dropWhile)
    have "last (rev ?b) = hd ?b" using False by (simp add: last_rev)
    moreover have "hd (rev ?b) = hd ?a" using False by (rule hd_rev_dropWhile_rev)
    ultimately show ?thesis using na nb by (simp add: trimmed_def TrimSpace_def)
  qed
qed

lemma TrimSpace_id: "trimmed s \<Longrightarrow> TrimSpace s = s"
proof (cases "s = []")
  case True
  then show ?thesis by (simp add: TrimSpace_def)
next
  case False
  assume "trimmed s"
  with False have h: "\<not> isSpace (hd s)" and l: "\<not> isSpace (last s)"
    by (auto simp: trimmed_def)
  from False h have "dropWhile isSpace s = s" by (cases s) auto
  moreover from False l have "dropWhile isSpace (rev s) = rev s"
    by (cases "rev s") (auto simp: last_rev hd_rev)
  ultimately show ?thesis by (simp add: TrimSpace_def)
qed

lemma TrimSpace_idem: "TrimSpace (TrimSpace s) = TrimSpace s"
  by (rule TrimSpace_id [OF TrimSpace_trimmed])

lemma trimmed_map:
  assumes "trimmed s" and "\<And>ch. \<not> isSpace ch \<Longrightarrow> \<not> isSpace (f ch)"
  shows "trimmed (map f s)"
proof (cases "s = []")
  case True
  then show ?thesis by (simp add: trimmed_def)
next
  case False
  with assms(1) have "\<not> isSpace (hd s)" and "\<not> isSpace (last s)"
    by (simp_all add: trimmed_def)
  then have "\<not> isSpace (f (hd s))" and "\<not> isSpace (f (last s))"
    by (simp_all only: assms(2) not_False_eq_True)
  then show ?thesis using False by (simp add: trimmed_def hd_map last_map)
qed

lemma not_isSpace_sep: "\<not> isSpace (Separator os)"
  by (cases os) (simp_all add: isSpace_def backslash_def)

lemma trimmed_FromSlash:
  assumes that: "trimmed s"
  shows "trimmed (FromSlash os s)"
proof (cases "Separator os = CHR ''/''")
  case True
  then show ?thesis using that by (simp add: FromSlash_def)
next
  case False
  have "trimmed (map (\<lambda>ch. if ch = CHR ''/'' then Separator os else ch) s)"
    using that by (rule trimmed_map) (simp add: not_isSpace_sep)
  then show ?thesis using False by (simp add: FromSlash_def)
qed

lemma FromSlash_idem: "FromSlash os (FromSlash os s) = FromSlash os s"
  by (cases os) (simp_all add: FromSlash_def backslash_def)

lemma FromSlash_Nil_iff: "FromSlash os s = [] \<longleftrightarrow> s = []"
  by (simp add: FromSlash_def)

lemma TrimSpace_FromSlash_TrimSpace:
  "TrimSpace (FromSlash os (TrimSpace p)) = FromSlash os (TrimSpace p)"
  by (rule TrimSpace_id [OF trimmed_FromSlash [OF TrimSpace_trimmed]])

lemma validateSubDirs_idem:
  "validateSubDirs h base ps = (None, ps') \<Longrightarrow> validateSubDirs h base ps' = (None, ps')"
proof (induction ps arbitrary: ps')
  case Nil
  then show ?case by simp
next
  case (Cons p0 rest)
  let ?p = "FromSlash (GOOS h) (TrimSpace p0)"
  from Cons.prems have ne: "TrimSpace p0 \<noteq> []"
    by (auto simp: Let_def split: if_splits)
  from Cons.prems ne have st: "\<not> IsNotExist (os_Stat h (filepath_Join h base ?p))"
    by (auto simp: Let_def split: if_splits)
  from Cons.prems ne st obtain rest' where r: "validateSubDirs h base rest = (None, rest')"
    and ps': "ps' = ?p # rest'"
    by (auto simp: Let_def split: if_splits prod.splits)
  from Cons.IH [OF r] have ih: "validateSubDirs h base rest' = (None, rest')" .
  have fx: "TrimSpace ?p = ?p" by (rule TrimSpace_FromSlash_TrimSpace)
  have ne': "?p \<noteq> []" using ne by (simp add: FromSlash_Nil_iff)
  show ?case
    unfolding ps' using fx ne' st ih by (simp add: Let_def FromSlash_idem)
qed

lemma TrimSpace_defaultExtension: "TrimSpace defaultExtension = defaultExtension"
  by (simp add: TrimSpace_def defaultExtension_def isSpace_def)

subsection \<open>Extensions\<close>

lemma Ext_loop_Nil_iff:
  "Ext_loop os xs seen = [] \<longleftrightarrow> CHR ''.'' \<notin> set (takeWhile (\<lambda>ch. \<not> IsPathSeparator os ch) xs)"
  by (induction xs arbitrary: seen) auto

lemma Ext_Nil_iff: "Ext os path = [] \<longleftrightarrow> CHR ''.'' \<notin> set (lastElement os path)"
  by (simp add: Ext_def lastElement_def Ext_loop_Nil_iff)

lemma Ext_loop_suffix:
  "Ext_loop os xs seen \<noteq> [] \<Longrightarrow> \<exists>stem. rev xs @ seen = stem @ Ext_loop os xs seen"
proof (induction xs arbitrary: seen)
  case Nil
  then show ?case by simp
next
  case (Cons ch front)
  show ?case
  proof (cases "ch = CHR ''.''")
    case True
    with Cons.prems show ?thesis by (auto split: if_splits)
  next
    case False
    with Cons.prems have sep: "\<not> IsPathSeparator os ch"
      and ne: "Ext_loop os front (ch # seen) \<noteq> []"
      by (auto split: if_splits)
    from Cons.IH [OF ne] obtain stem
      where "rev front @ ch # seen = stem @ Ext_loop os front (ch # seen)" ..
    with False sep show ?thesis by auto
  qed
qed

lemma Ext_suffix: "Ext os path = e \<Longrightarrow> e \<noteq> [] \<Longrightarrow> \<exists>stem. path = stem @ e"
  using Ext_loop_suffix [of os "rev path" "[]"] by (auto simp: Ext_def)

lemma Ext_loop_no_dot:
  "CHR ''.'' \<notin> set seen \<Longrightarrow> CHR ''.'' \<notin> set (tl (Ext_loop os xs seen))"
  by (induction xs arbitrary: seen) simp_all

lemma Ext_no_dot: "Ext os path = ch # e \<Longrightarrow> CHR ''.'' \<notin> set e"
  using Ext_loop_no_dot [of "[]" os "rev path"] by (simp add: Ext_def)

subsection \<open>Discovery\<close>

lemma collectPaths_eq:
  "collectPaths h c dir files paths =
     paths @ map (\<lambda>f. completePathToFile h c dir (Name f)) (filter (isTemplateFile h c) files)"
  by (induction files arbitrary: paths) (simp_all add: isTemplateFile_def)

lemma buildPathsToFiles_eq:
  "buildPathsToFiles h c dir =
     (case readFunc h c (listingPath h c dir) of
        Inl err \<Rightarrow> Inl err
      | Inr files \<Rightarrow>
          Inr (map (\<lambda>f. completePathToFile h c (listingPath h c dir) (Name f))
                 (filter (isTemplateFile h c) files)))"
  by (simp add: buildPathsToFiles_def collectPaths_eq Let_def split: sum.splits)

lemma slashSeparated_ToSlash: "slashSeparated os (ToSlash os path)"
  by (cases os) (auto simp: slashSeparated_def ToSlash_def list_all_iff backslash_def)

lemma slashSeparated_Windows: "slashSeparated Windows path \<longleftrightarrow> backslash \<notin> set path"
  by (auto simp: slashSeparated_def list_all_iff backslash_def)

text \<open>Neither discovery nor the path of a subdirectory looks at the registry.\<close>

lemma isTemplateFile_templates [simp]:
  "isTemplateFile h (c\<lparr>templates := tm\<rparr>) = isTemplateFile h c"
  by (rule ext) (simp add: isTemplateFile_def)

lemma buildPathsToFiles_templates [simp]:
  "buildPathsToFiles h (c\<lparr>templates := tm\<rparr>) dir = buildPathsToFiles h c dir"
  by (simp add: buildPathsToFiles_eq readFunc_def listingPath_def completePathToFile_def
      split: sum.splits)

lemma completePathToSubDir_templates [simp]:
  "completePathToSubDir h (c\<lparr>templates := tm\<rparr>) subDir = completePathToSubDir h c subDir"
  by (simp add: completePathToSubDir_def)

lemma buildSubDirs_templates [simp]:
  "buildSubDirs eng h (c\<lparr>templates := tm0\<rparr>) base ds tm lg = buildSubDirs eng h c base ds tm lg"
  by (induction ds arbitrary: tm) (simp_all split: sum.splits)

lemma buildBase_templates [simp]:
  "buildBase eng (c\<lparr>templates := tm0\<rparr>) base tm lg = buildBase eng c base tm lg"
  by (simp add: buildBase_def)

subsection \<open>The loop over the subdirectories\<close>

lemma buildSubDirs_ok_discovered:
  assumes "buildSubDirs eng h c base ds tm lg = (None, tm', lg')" and "d \<in> set ds"
  shows "\<exists>ps. buildPathsToFiles h c (completePathToSubDir h c d) = Inr ps \<and>
           (ps \<noteq> [] \<longrightarrow> (\<exists>t. ParseFiles eng (FuncMap c) (ps @ base) = Inr t))"
  using assms
  by (induction ds arbitrary: tm) (auto split: sum.splits if_splits)

lemma buildSubDirs_ok_kept:
  assumes "buildSubDirs eng h c base ds tm lg = (None, tm', lg')"
    and "d \<notin> set ds \<or> buildPathsToFiles h c (completePathToSubDir h c d) = Inr []"
  shows "tm' d = tm d"
  using assms
  by (induction ds arbitrary: tm) (auto split: sum.splits if_splits)

lemma buildSubDirs_ok_log:
  "buildSubDirs eng h c base ds tm lg = (None, tm', lg') \<Longrightarrow> lg' = lg"
  by (induction ds arbitrary: tm) (auto split: sum.splits if_splits)

lemma buildSubDirs_ok_stored:
  assumes "buildSubDirs eng h c base ds tm lg = (None, tm', lg')"
    and "d \<in> set ds"
    and "buildPathsToFiles h c (completePathToSubDir h c d) = Inr ps"
    and "ps \<noteq> []"
  shows "\<exists>t. ParseFiles eng (FuncMap c) (ps @ base) = Inr t \<and> tm' d = Some t"
  using assms
proof (induction ds arbitrary: tm)
  case Nil
  then show ?case by simp
next
  case (Cons x rest)
  show ?case
  proof (cases "d \<in> set rest")
    case True
    from Cons.prems(1) obtain tm1
      where "buildSubDirs eng h c base rest tm1 lg = (None, tm', lg')"
      by (auto split: sum.splits if_splits)
    from Cons.IH [OF this True Cons.prems(3,4)] show ?thesis .
  next
    case False
    with Cons.prems(2) have dx: "d = x" by simp
    from Cons.prems(1,3,4) dx obtain t
      where p: "ParseFiles eng (FuncMap c) (ps @ base) = Inr t"
        and r: "buildSubDirs eng h c base rest (tm(x \<mapsto> t)) lg = (None, tm', lg')"
      by (auto split: sum.splits if_splits)
    from False have "tm' d = (tm(x \<mapsto> t)) d"
      by (intro buildSubDirs_ok_kept [OF r]) simp
    with p dx show ?thesis by simp
  qed
qed


lemma buildSubDirs_Cons:
  "buildSubDirs eng h c base (x # rest) tm lg =
     (case buildSubDirs eng h c base [x] tm lg of
        (None, tm1, lg1) \<Rightarrow> buildSubDirs eng h c base rest tm1 lg1
      | (Some e, tm1, lg1) \<Rightarrow> (Some e, tm1, lg1))"
  by (simp split: sum.splits)

lemma buildSubDirs_step_fail:
  "buildSubDirs eng h c base [x] tm lg = (Some e, tm', lg') \<Longrightarrow> tm' = tm"
  by (auto split: sum.splits if_splits)

lemma buildSubDirs_failure:
  assumes "buildSubDirs eng h c base ds tm lg = (Some e, tm', lg')"
  shows "\<exists>pre d post. ds = pre @ d # post \<and>
           buildSubDirs eng h c base pre tm lg = (None, tm', lg) \<and>
           buildSubDirs eng h c base [d] tm' lg = (Some e, tm', lg')"
  using assms
proof (induction ds arbitrary: tm)
  case Nil
  then show ?case by simp
next
  case (Cons x rest)
  obtain r tm1 lg1 where step: "buildSubDirs eng h c base [x] tm lg = (r, tm1, lg1)"
    by (cases "buildSubDirs eng h c base [x] tm lg") auto
  show ?case
  proof (cases r)
    case None
    with step have lg1: "lg1 = lg" by (auto dest: buildSubDirs_ok_log simp del: buildSubDirs.simps)
    from Cons.prems step None lg1
    have "buildSubDirs eng h c base rest tm1 lg = (Some e, tm', lg')"
      by (simp del: buildSubDirs.simps add: buildSubDirs_Cons [of eng h c base x rest])
    from Cons.IH [OF this] obtain pre d post
      where "rest = pre @ d # post"
        and "buildSubDirs eng h c base pre tm1 lg = (None, tm', lg)"
        and "buildSubDirs eng h c base [d] tm' lg = (Some e, tm', lg')"
      by blast
    with step None lg1 have "x # rest = (x # pre) @ d # post
        \<and> buildSubDirs eng h c base (x # pre) tm lg = (None, tm', lg)
        \<and> buildSubDirs eng h c base [d] tm' lg = (Some e, tm', lg')"
      by (simp del: buildSubDirs.simps add: buildSubDirs_Cons [of eng h c base x pre])
    then show ?thesis by blast
  next
    case (Some e1)
    with step have tm1: "tm1 = tm" by (auto dest: buildSubDirs_step_fail simp del: buildSubDirs.simps)
    from Cons.prems step Some tm1 have "e1 = e" and "tm' = tm" and "lg1 = lg'"
      by (simp_all del: buildSubDirs.simps add: buildSubDirs_Cons [of eng h c base x rest])
    with step Some tm1 have "x # rest = [] @ x # rest
        \<and> buildSubDirs eng h c base [] tm lg = (None, tm', lg)
        \<and> buildSubDirs eng h c base [x] tm' lg = (Some e, tm', lg')"
      by (simp del: buildSubDirs.simps add: buildSubDirs.simps(1))
    then show ?thesis by blast
  qed
qed


subsection \<open>What a successful validation leaves\<close>

lemma validateSubDirs_ok:
  "validateSubDirs h base ps = (None, ps') \<Longrightarrow>
     (\<forall>p\<in>set ps. TrimSpace p \<noteq> []) \<and> ps' = map (\<lambda>p. FromSlash (GOOS h) (TrimSpace p)) ps"
  by (induction ps arbitrary: ps') (auto simp: Let_def split: if_splits prod.splits)

lemma validate_ok:
  assumes "validate h c = (None, c')"
  shows "c' = c\<lparr>BasePath := TrimSpace (BasePath c),
               SubDirs := (if UseEmbedded c then SubDirs c
                           else map (\<lambda>p. FromSlash (GOOS h) (TrimSpace p)) (SubDirs c)),
               Extension := (if TrimSpace (Extension c) = [] then defaultExtension
                             else TrimSpace (Extension c))\<rparr>"
    and "\<not> UseEmbedded c \<Longrightarrow> \<forall>p\<in>set (SubDirs c). TrimSpace p \<noteq> []"
  using assms
  by (auto simp: validate_def Let_def split: if_splits prod.splits dest!: validateSubDirs_ok)

lemma validate_tree:
  "validate unixHost (onDiskConfig '' templates '' ['' app'', ''help '']) =
     (None, onDiskConfig ''templates'' [''app'', ''help''])"
  by (simp add: validate_def validateSubDirs.simps Let_def onDiskConfig_def unixHost_def
      TrimSpace_def isSpace_def FromSlash_def cleanJoin_def treeStat_def treeReadDir_def
      defaultExtension_def)

subsection \<open>Kept directory entries\<close>

lemma isTemplateFile_name:
  assumes "isTemplateFile h c f"
  shows "\<not> IsDir f" and "\<exists>stem. Name f = stem @ ''.'' @ Extension c"
    and "CHR ''.'' \<notin> set (Extension c)"
proof -
  from assms show "\<not> IsDir f" by (simp add: isTemplateFile_def)
  from assms have e: "Ext (GOOS h) (Name f) = CHR ''.'' # Extension c"
    by (simp add: isTemplateFile_def)
  from Ext_suffix [OF e] show "\<exists>stem. Name f = stem @ ''.'' @ Extension c" by simp
  from Ext_no_dot [OF e] show "CHR ''.'' \<notin> set (Extension c)" .
qed

subsection \<open>Build\<close>

lemma buildSubDirs_ok_dom:
  assumes "buildSubDirs eng h c base ds tm lg = (None, tm', lg')"
  shows "dom tm' = dom tm \<union> {d \<in> set ds. buildPathsToFiles h c (completePathToSubDir h c d) \<noteq> Inr []}"
proof (rule set_eqI)
  fix k
  show "k \<in> dom tm' \<longleftrightarrow>
        k \<in> dom tm \<union> {d \<in> set ds. buildPathsToFiles h c (completePathToSubDir h c d) \<noteq> Inr []}"
  proof (cases "k \<in> set ds \<and> buildPathsToFiles h c (completePathToSubDir h c k) \<noteq> Inr []")
    case True
    with buildSubDirs_ok_discovered [OF assms, of k] obtain ps
      where "buildPathsToFiles h c (completePathToSubDir h c k) = Inr ps" and "ps \<noteq> []"
      by auto
    with buildSubDirs_ok_stored [OF assms, of k ps] True show ?thesis by auto
  next
    case False
    then have "tm' k = tm k" by (intro buildSubDirs_ok_kept [OF assms]) auto
    with False show ?thesis by (auto simp: dom_def)
  qed
qed

lemma buildBase_ok:
  "buildBase eng c base tm lg = (None, tm', lg') \<Longrightarrow>
     lg' = lg \<and>
     (if base = [] then tm' = tm
      else \<exists>t. ParseFiles eng (FuncMap c) base = Inr t \<and> tm' = tm('''' \<mapsto> t))"
  by (auto simp: buildBase_def split: sum.splits if_splits)

lemma buildBase_fail:
  "buildBase eng c base tm lg = (Some e, tm', lg') \<Longrightarrow>
     base \<noteq> [] \<and> ParseFiles eng (FuncMap c) base = Inl e \<and> tm' = tm"
  by (auto simp: buildBase_def split: sum.splits if_splits)

lemma Build_ok:
  assumes "Build eng h c0 lg = (None, c, lg')"
  shows "\<exists>c1 base tm0 tm'.
           validate h c0 = (None, c1) \<and> c = c1\<lparr>templates := tm'\<rparr> \<and>
           buildPathsToFiles h c (BasePath c) = Inr base \<and>
           buildBase eng c base Map.empty lg = (None, tm0, lg) \<and>
           buildSubDirs eng h c base (SubDirs c) tm0 lg = (None, templates c, lg')"
proof -
  from assms obtain c1 where v: "validate h c0 = (None, c1)"
    by (auto simp: Build_def split: prod.splits option.splits)
  from assms v obtain base where b: "buildPathsToFiles h c1 (BasePath c1) = Inr base"
    by (auto simp: Build_def Let_def split: sum.splits)
  from assms v b obtain tm0 lg1 where bb: "buildBase eng c1 base Map.empty lg = (None, tm0, lg1)"
    by (auto simp: Build_def Let_def split: prod.splits option.splits)
  from buildBase_ok [OF bb] have lg1: "lg1 = lg" by simp
  from assms v b bb lg1 obtain tm'
    where l: "buildSubDirs eng h c1 base (SubDirs c1) tm0 lg = (None, tm', lg')"
      and c: "c = c1\<lparr>templates := tm'\<rparr>"
    by (auto simp: Build_def Let_def split: prod.splits)
  from v b bb lg1 l show ?thesis unfolding c by auto
qed

lemma Build_fail:
  assumes "Build eng h c0 lg = (Some e, c, lg')"
    and "validate h c0 = (None, c1)"
    and "buildPathsToFiles h c1 (BasePath c1) = Inr base"
  shows "(buildBase eng c1 base Map.empty lg = (Some e, Map.empty, lg') \<and>
          c = c1\<lparr>templates := Map.empty\<rparr>) \<or>
         (\<exists>tm0. buildBase eng c1 base Map.empty lg = (None, tm0, lg) \<and>
            buildSubDirs eng h c1 base (SubDirs c1) tm0 lg = (Some e, templates c, lg') \<and>
            c = c1\<lparr>templates := templates c\<rparr>)"
proof -
  obtain r tm0 lg1 where bb: "buildBase eng c1 base Map.empty lg = (r, tm0, lg1)"
    by (cases "buildBase eng c1 base Map.empty lg") auto
  show ?thesis
  proof (cases r)
    case None
    with bb buildBase_ok [of eng c1 base Map.empty lg tm0 lg1] have lg1: "lg1 = lg" by simp
    from assms bb None lg1 show ?thesis
      by (auto simp: Build_def Let_def split: prod.splits)
  next
    case (Some e1)
    with bb buildBase_fail [of eng c1 base Map.empty lg e1 tm0 lg1] have "tm0 = Map.empty" by simp
    with assms bb Some show ?thesis
      by (auto simp: Build_def Let_def split: prod.splits)
  qed
qed

lemma buildPathsToFiles_on_disk:
  "\<not> UseEmbedded c \<Longrightarrow>
     buildPathsToFiles h c dir =
       (case os_ReadDir h dir of
          Inl err \<Rightarrow> Inl err
        | Inr files \<Rightarrow> Inr (map (\<lambda>f. filepath_Join h dir (Name f)) (filter (isTemplateFile h c) files)))"
  by (simp add: buildPathsToFiles_eq readFunc_def listingPath_def completePathToFile_def
      split: sum.splits)

lemma on_disk_discovered_iff:
  "\<not> UseEmbedded c \<Longrightarrow> buildPathsToFiles h c dir = Inr ps \<Longrightarrow>
     ps \<noteq> [] \<longleftrightarrow> templateFilesIn h c dir \<noteq> []"
  by (auto simp: buildPathsToFiles_on_disk templateFilesIn_def split: sum.splits)

subsection \<open>The package run on the template tree\<close>

lemmas tree_defs =
  onDiskConfig_def unixHost_def treeEngine_def treeReadDir_def treeStat_def cleanJoin_def
  regularFile_def directory_def defaultExtension_def brokenError_def

lemmas eval_defs =
  buildPathsToFiles_def readFunc_def listingPath_def completePathToFile_def
  completePathToSubDir_def buildBase_def Ext_def FromSlash_def ToSlash_def

lemma tree_base_discovery:
  "buildPathsToFiles unixHost (onDiskConfig ''templates'' ds) ''templates'' =
     Inr [''templates/footer.html'', ''templates/header.html'']"
  by (simp add: eval_defs tree_defs)

lemma tree_app_discovery:
  "buildPathsToFiles unixHost (onDiskConfig ''templates'' ds) ''templates/app'' =
     Inr [''templates/app/index.html'']"
  by (simp add: eval_defs tree_defs)

lemma tree_help_discovery:
  "buildPathsToFiles unixHost (onDiskConfig ''templates'' ds) ''templates/help'' = Inr []"
  by (simp add: eval_defs tree_defs)

lemma tree_bad_discovery:
  "buildPathsToFiles unixHost (onDiskConfig ''templates'' ds) ''templates/bad'' =
     Inr [''templates/bad/broken.html'']"
  by (simp add: eval_defs tree_defs)

lemma tree_subdir_path:
  "completePathToSubDir unixHost (onDiskConfig ''templates'' ds) d = ''templates/'' @ d"
  by (simp add: completePathToSubDir_def tree_defs FromSlash_def)

lemma onDiskConfig_fields:
  "BasePath (onDiskConfig b ds) = b" "SubDirs (onDiskConfig b ds) = ds"
  "FuncMap (onDiskConfig b ds) = ()" "UseEmbedded (onDiskConfig b ds) = False"
  by (simp_all add: onDiskConfig_def)

lemma treeEngine_ParseFiles:
  "ParseFiles treeEngine funcs paths =
     (if ''templates/bad/broken.html'' \<in> set paths then Inl brokenError else Inr paths)"
  by (simp add: treeEngine_def)

lemma Build_tree:
  "Build treeEngine unixHost (onDiskConfig '' templates '' ['' app'', ''help '']) [] =
     (None, builtConfig, [])"
  by (simp add: Build_def validate_tree onDiskConfig_fields tree_base_discovery tree_subdir_path
      tree_app_discovery tree_help_discovery buildBase_def treeEngine_ParseFiles builtConfig_def
      treeRegistry_def)

lemma validate_bad_tree: "validate unixHost badConfig = (None, badConfig)"
  by (simp add: badConfig_def validate_def validateSubDirs.simps Let_def onDiskConfig_def
      unixHost_def TrimSpace_def isSpace_def FromSlash_def cleanJoin_def treeStat_def
      treeReadDir_def defaultExtension_def)

lemma Build_bad_tree:
  "Build treeEngine unixHost badConfig [] =
     (Some brokenError, badConfig\<lparr>templates := treeRegistry\<rparr>,
      [sprintln [''templates.Build'', ''error parsing files at subdir '' @ [CHR 0x27] @ ''bad'' @ [CHR 0x27],
         Error brokenError]])"
  unfolding Build_def validate_bad_tree
  by (simp add: badConfig_def onDiskConfig_fields tree_base_discovery tree_subdir_path
      tree_app_discovery tree_help_discovery tree_bad_discovery buildBase_def
      treeEngine_ParseFiles treeRegistry_def log_Println_def)

lemma builtConfig_templates:
  "templates builtConfig ''docs'' = None"
  "templates builtConfig ''app'' =
     Some [''templates/app/index.html'', ''templates/footer.html'', ''templates/header.html'']"
  by (simp_all add: builtConfig_def treeRegistry_def)

lemma builtConfig_names:
  "templateNameWithExt unixHost builtConfig ''missing'' = ''missing.html''"
  "templateNameWithExt unixHost builtConfig ''index'' = ''index.html''"
  by (simp_all add: templateNameWithExt_def Ext_def unixHost_def builtConfig_def onDiskConfig_def
      defaultExtension_def)

lemma treeEngine_ExecuteTemplate:
  "ExecuteTemplate treeEngine t name data =
     (if (''templates/app/'' @ name) \<in> set t \<or> (''templates/'' @ name) \<in> set t
      then ([''<html>'', name, ''</html>''], None)
      else ([], Some (Foreign (''html/template: '' @ name @ '' is undefined''))))"
  by (simp add: treeEngine_def)

section \<open>Verified properties\<close>

text \<open>
  C1, in the form that holds of the code. \<open>Build\<close> empties the registry once, after validation, and never
  rolls it back. When the base group does not compile the registry is left empty. When
  the failure comes from the loop over the subdirectories, the registry is exactly what the
  iterations before the failing one stored: the base group and the groups of the earlier
  subdirectories stay, the failing subdirectory and the later ones store nothing. Nothing
  of the registry from before the call is left in either case.
\<close>

theorem C1_failed_Build_keeps_earlier_groups:
  assumes "Build eng h c0 lg = (Some e, c, lg')"
    and "validate h c0 = (None, c1)"
    and "buildPathsToFiles h c1 (BasePath c1) = Inr base"
  shows "(base \<noteq> [] \<and> ParseFiles eng (FuncMap c1) base = Inl e \<and> templates c = Map.empty) \<or>
         (\<exists>tm0 pre d post.
            buildBase eng c1 base Map.empty lg = (None, tm0, lg) \<and>
            SubDirs c1 = pre @ d # post \<and>
            buildSubDirs eng h c1 base pre tm0 lg = (None, templates c, lg) \<and>
            buildSubDirs eng h c1 base [d] (templates c) lg = (Some e, templates c, lg'))"
proof -
  from Build_fail [OF assms] show ?thesis
  proof
    assume a: "buildBase eng c1 base Map.empty lg = (Some e, Map.empty, lg') \<and>
               c = c1\<lparr>templates := Map.empty\<rparr>"
    then have "templates c = Map.empty" by simp
    with a buildBase_fail [of eng c1 base Map.empty lg e Map.empty lg'] show ?thesis by simp
  next
    assume "\<exists>tm0. buildBase eng c1 base Map.empty lg = (None, tm0, lg) \<and>
              buildSubDirs eng h c1 base (SubDirs c1) tm0 lg = (Some e, templates c, lg') \<and>
              c = c1\<lparr>templates := templates c\<rparr>"
    then obtain tm0 where bb: "buildBase eng c1 base Map.empty lg = (None, tm0, lg)"
      and l: "buildSubDirs eng h c1 base (SubDirs c1) tm0 lg = (Some e, templates c, lg')"
      by blast
    from buildSubDirs_failure [OF l] bb show ?thesis by blast
  qed
qed

text \<open>
  This form of C1 on the template tree: the group of \<open>bad\<close> does not compile, and the
  registry is the one the base directory and \<open>app\<close> gave.
\<close>

theorem C1_witness:
  "Build treeEngine unixHost badConfig [] =
     (Some brokenError, badConfig\<lparr>templates := treeRegistry\<rparr>,
      [sprintln [''templates.Build'', ''error parsing files at subdir '' @ [CHR 0x27] @ ''bad'' @ [CHR 0x27],
         Error brokenError]]) \<and>
   validate unixHost badConfig = (None, badConfig) \<and>
   buildPathsToFiles unixHost badConfig (BasePath badConfig) =
     Inr [''templates/footer.html'', ''templates/header.html''] \<and>
   (\<exists>tm0 pre d post.
      buildBase treeEngine badConfig [''templates/footer.html'', ''templates/header.html''] Map.empty [] =
        (None, tm0, []) \<and>
      SubDirs badConfig = pre @ d # post \<and>
      buildSubDirs treeEngine unixHost badConfig [''templates/footer.html'', ''templates/header.html'']
        pre tm0 [] = (None, treeRegistry, []))"
proof -
  have b: "buildPathsToFiles unixHost badConfig (BasePath badConfig) =
     Inr [''templates/footer.html'', ''templates/header.html'']"
    by (simp add: badConfig_def onDiskConfig_fields tree_base_discovery)
  have p: "ParseFiles treeEngine (FuncMap badConfig)
      [''templates/footer.html'', ''templates/header.html''] \<noteq> Inl brokenError"
    by (simp add: treeEngine_ParseFiles)
  from C1_failed_Build_keeps_earlier_groups [OF Build_bad_tree validate_bad_tree b] p
  have "\<exists>tm0 pre d post.
      buildBase treeEngine badConfig [''templates/footer.html'', ''templates/header.html''] Map.empty [] =
        (None, tm0, []) \<and>
      SubDirs badConfig = pre @ d # post \<and>
      buildSubDirs treeEngine unixHost badConfig [''templates/footer.html'', ''templates/header.html'']
        pre tm0 [] = (None, treeRegistry, [])"
    by auto
  with Build_bad_tree validate_bad_tree b show ?thesis by blast
qed

text \<open>
  The stronger reading of C1, that a failed build leaves no group behind, fails there: the
  build returns the compile error of \<open>bad\<close>, and the base
  group and the group of \<open>app\<close>, both stored by this very call, are still in the registry
  and \<open>Show\<close> renders from them.
\<close>

theorem C1_counterexample:
  "fst (Build treeEngine unixHost badConfig []) = Some brokenError \<and>
   ParseFiles treeEngine (FuncMap badConfig)
     [''templates/bad/broken.html'', ''templates/footer.html'', ''templates/header.html''] =
     Inl brokenError \<and>
   templates (fst (snd (Build treeEngine unixHost badConfig []))) '''' =
     Some [''templates/footer.html'', ''templates/header.html''] \<and>
   templates (fst (snd (Build treeEngine unixHost badConfig []))) ''app'' =
     Some [''templates/app/index.html'', ''templates/footer.html'', ''templates/header.html''] \<and>
   Show treeEngine unixHost (fst (snd (Build treeEngine unixHost badConfig []))) [] ''app'' ''index'' () [] =
     ([Write ''<html>'', Write ''index.html'', Write ''</html>''], [])"
proof -
  have f: "fst (Build treeEngine unixHost badConfig []) = Some brokenError"
    and c: "fst (snd (Build treeEngine unixHost badConfig [])) = badConfig\<lparr>templates := treeRegistry\<rparr>"
    by (simp_all add: Build_bad_tree)
  show ?thesis
    unfolding f c
    by (simp add: treeEngine_ParseFiles treeRegistry_def Show_def templateNameWithExt_def Ext_def
        unixHost_def badConfig_def onDiskConfig_def defaultExtension_def treeEngine_def
        renderData_def)
qed

text \<open>
  C2. After a successful \<open>Build\<close> of an on-disk configuration the keys of the registry are
  exactly: the empty name when the base directory has at least one template file, and the
  name of every configured subdirectory that has at least one template file. No
  subdirectory carries the empty name, and the iteration for a subdirectory without
  template files leaves registry, log and error as they are and goes on to the next one.
\<close>

theorem C2_registry_keys:
  assumes "Build eng h c0 lg = (None, c, lg')" and "\<not> UseEmbedded c0"
  shows "dom (templates c) =
           {k. k = '''' \<and> templateFilesIn h c (BasePath c) \<noteq> []} \<union>
           {d \<in> set (SubDirs c). templateFilesIn h c (filepath_Join h (BasePath c) d) \<noteq> []} \<and>
         '''' \<notin> set (SubDirs c) \<and>
         (\<forall>d files rest tm lg1.
            os_ReadDir h (filepath_Join h (BasePath c) d) = Inr files \<and>
            filter (isTemplateFile h c) files = [] \<longrightarrow>
            buildSubDirs eng h c base (d # rest) tm lg1 = buildSubDirs eng h c base rest tm lg1)"
proof -
  from Build_ok [OF assms(1)] obtain c1 base0 tm0 tm'
    where v: "validate h c0 = (None, c1)" and c: "c = c1\<lparr>templates := tm'\<rparr>"
      and b: "buildPathsToFiles h c (BasePath c) = Inr base0"
      and bb: "buildBase eng c base0 Map.empty lg = (None, tm0, lg)"
      and l: "buildSubDirs eng h c base0 (SubDirs c) tm0 lg = (None, templates c, lg')"
    by blast
  from assms(2) have e: "\<not> UseEmbedded c"
    and s: "SubDirs c = map (\<lambda>p. FromSlash (GOOS h) (TrimSpace p)) (SubDirs c0)"
    unfolding c by (simp_all add: validate_ok(1) [OF v])
  have path: "completePathToSubDir h c d = filepath_Join h (BasePath c) d" for d
    using e by (simp add: completePathToSubDir_def)
  have base: "dom tm0 = {k. k = '''' \<and> templateFilesIn h c (BasePath c) \<noteq> []}"
    using buildBase_ok [OF bb] on_disk_discovered_iff [OF e b] by (auto split: if_splits)
  have sub: "buildPathsToFiles h c (filepath_Join h (BasePath c) d) \<noteq> Inr [] \<longleftrightarrow>
             templateFilesIn h c (filepath_Join h (BasePath c) d) \<noteq> []"
    if "d \<in> set (SubDirs c)" for d
  proof -
    from buildSubDirs_ok_discovered [OF l that] obtain ps
      where ps: "buildPathsToFiles h c (filepath_Join h (BasePath c) d) = Inr ps"
      by (auto simp: path)
    from on_disk_discovered_iff [OF e ps] ps show ?thesis by simp
  qed
  have eq: "{d \<in> set (SubDirs c). buildPathsToFiles h c (filepath_Join h (BasePath c) d) \<noteq> Inr []} =
            {d \<in> set (SubDirs c). templateFilesIn h c (filepath_Join h (BasePath c) d) \<noteq> []}"
    by (rule Collect_cong) (use sub in blast)
  have 1: "dom (templates c) =
           {k. k = '''' \<and> templateFilesIn h c (BasePath c) \<noteq> []} \<union>
           {d \<in> set (SubDirs c). templateFilesIn h c (filepath_Join h (BasePath c) d) \<noteq> []}"
    by (simp only: buildSubDirs_ok_dom [OF l] base path eq)
  have 2: "'''' \<notin> set (SubDirs c)"
  proof
    assume "'''' \<in> set (SubDirs c)"
    then obtain p where p: "p \<in> set (SubDirs c0)"
      and "FromSlash (GOOS h) (TrimSpace p) = []"
      unfolding s by auto
    then have "TrimSpace p = []" by (simp add: FromSlash_Nil_iff)
    with validate_ok(2) [OF v assms(2)] p show False by blast
  qed
  have 3: "\<forall>d files rest tm lg1.
            os_ReadDir h (filepath_Join h (BasePath c) d) = Inr files \<and>
            filter (isTemplateFile h c) files = [] \<longrightarrow>
            buildSubDirs eng h c base (d # rest) tm lg1 = buildSubDirs eng h c base rest tm lg1"
    using e by (simp add: path buildPathsToFiles_on_disk)
  show ?thesis by (rule conjI [OF 1 conjI [OF 2 3]])
qed

text \<open>C2 on the template tree: the keys are the empty name and \<open>app\<close>; \<open>help\<close> has no template file.\<close>

theorem C2_witness:
  "Build treeEngine unixHost (onDiskConfig '' templates '' ['' app'', ''help '']) [] =
     (None, builtConfig, []) \<and>
   \<not> UseEmbedded (onDiskConfig '' templates '' ['' app'', ''help '']) \<and>
   SubDirs builtConfig = [''app'', ''help''] \<and>
   dom (templates builtConfig) = {'''', ''app''}"
proof -
  have e: "\<not> UseEmbedded (onDiskConfig '' templates '' ['' app'', ''help ''])"
    by (simp add: onDiskConfig_fields)
  have s: "SubDirs builtConfig = [''app'', ''help'']"
    by (simp add: builtConfig_def onDiskConfig_fields)
  have t: "templateFilesIn unixHost builtConfig (BasePath builtConfig) \<noteq> []"
    "templateFilesIn unixHost builtConfig (filepath_Join unixHost (BasePath builtConfig) ''app'') \<noteq> []"
    "templateFilesIn unixHost builtConfig (filepath_Join unixHost (BasePath builtConfig) ''help'') = []"
    by (simp_all add: templateFilesIn_def isTemplateFile_def builtConfig_def Ext_def FromSlash_def
        tree_defs)
  from C2_registry_keys [OF Build_tree e]
  have "dom (templates builtConfig) =
          {k. k = '''' \<and> templateFilesIn unixHost builtConfig (BasePath builtConfig) \<noteq> []} \<union>
          {d \<in> set (SubDirs builtConfig).
             templateFilesIn unixHost builtConfig (filepath_Join unixHost (BasePath builtConfig) d) \<noteq> []}"
    by blast
  also have "\<dots> = {'''', ''app''}"
    unfolding s using t by auto
  finally show ?thesis using Build_tree e s by blast
qed

text \<open>
  C3. \<open>Show\<close> is a total function of the registry: it has no failing branch of its own.
  For a group key that is not in the registry it does nothing but call \<open>http.Error\<close> with
  status 500 on the writer; no template of any other group is executed and nothing is
  logged. When the group exists and executing the template fails, it calls \<open>http.Error\<close>
  with status 404 after whatever the template wrote, and logs the error.
\<close>

theorem C3_Show_failures:
  "(templates c subdir = None \<longrightarrow>
      Show eng h c w subdir templateName injectedData lg =
        (w @ [http_Error (''templates.Show: invalid subdirectory '' @ [CHR 0x27] @ subdir @ [CHR 0x27])
                500], lg)) \<and>
   (templates c subdir = Some t \<and>
    ExecuteTemplate eng t (templateNameWithExt h c templateName) (renderData c injectedData) =
      (out, Some err) \<longrightarrow>
      Show eng h c w subdir templateName injectedData lg =
        (w @ map Write out @ [http_Error (Error err) 404],
         lg @ [''templates.Show: error during execute '' @ Error err]))"
  by (simp add: Show_def Let_def StatusInternalServerError_def StatusNotFound_def log_Println_def)

text \<open>C3 on the built tree: an unknown group, and a template that the group \<open>app\<close> does not define.\<close>

theorem C3_witness:
  "templates builtConfig ''docs'' = None \<and>
   Show treeEngine unixHost builtConfig [] ''docs'' ''index'' () [] =
     ([http_Error (''templates.Show: invalid subdirectory '' @ [CHR 0x27] @ ''docs'' @ [CHR 0x27]) 500],
      []) \<and>
   templates builtConfig ''app'' =
     Some [''templates/app/index.html'', ''templates/footer.html'', ''templates/header.html''] \<and>
   ExecuteTemplate treeEngine
     [''templates/app/index.html'', ''templates/footer.html'', ''templates/header.html'']
     (templateNameWithExt unixHost builtConfig ''missing'') (renderData builtConfig ()) =
     ([], Some (Foreign ''html/template: missing.html is undefined'')) \<and>
   Show treeEngine unixHost builtConfig [] ''app'' ''missing'' () [] =
     ([http_Error ''html/template: missing.html is undefined'' 404],
      [''templates.Show: error during execute html/template: missing.html is undefined''])"
proof -
  have x: "ExecuteTemplate treeEngine
     [''templates/app/index.html'', ''templates/footer.html'', ''templates/header.html'']
     (templateNameWithExt unixHost builtConfig ''missing'') (renderData builtConfig ()) =
     ([], Some (Foreign ''html/template: missing.html is undefined''))"
    by (simp add: builtConfig_names treeEngine_ExecuteTemplate)
  from C3_Show_failures [of builtConfig "''docs''" treeEngine unixHost "[]" "''index''" "()" "[]"]
    builtConfig_templates(1)
  have a: "Show treeEngine unixHost builtConfig [] ''docs'' ''index'' () [] =
     ([http_Error (''templates.Show: invalid subdirectory '' @ [CHR 0x27] @ ''docs'' @ [CHR 0x27]) 500],
      [])"
    by simp
  from C3_Show_failures [where c = builtConfig and subdir = "''app''" and eng = treeEngine
      and h = unixHost and templateName = "''missing''" and injectedData = "()" and w = "[]"
      and lg = "[]" and out = "[]"
      and t = "[''templates/app/index.html'', ''templates/footer.html'', ''templates/header.html'']"
      and err = "Foreign ''html/template: missing.html is undefined''"]
    builtConfig_templates(2) x
  have b: "Show treeEngine unixHost builtConfig [] ''app'' ''missing'' () [] =
     ([http_Error ''html/template: missing.html is undefined'' 404],
      [''templates.Show: error during execute html/template: missing.html is undefined''])"
    by simp
  from a b x builtConfig_templates show ?thesis by blast
qed

text \<open>
  C4. When the directory can be listed, \<open>buildPathsToFiles\<close> returns, in the order of the
  listing, the complete paths of exactly those entries that are no directories and whose
  extension is the dot followed by the configured extension. Such a name ends in that
  suffix; \<open>report.html.bak\<close>, \<open>html.txt\<close> and \<open>xhtml\<close> are not kept for the extension
  \<open>html\<close>; and a listing without such entries gives the empty result and no error.
\<close>

theorem C4_discovery_exact_extension:
  assumes "readFunc h c (listingPath h c dir) = Inr files"
  shows "buildPathsToFiles h c dir =
           Inr (map (\<lambda>f. completePathToFile h c (listingPath h c dir) (Name f))
                  (filter (isTemplateFile h c) files)) \<and>
         (\<forall>f\<in>set files. isTemplateFile h c f \<longrightarrow>
            \<not> IsDir f \<and> (\<exists>stem. Name f = stem @ ''.'' @ Extension c)) \<and>
         (Extension c = ''html'' \<longrightarrow>
            \<not> isTemplateFile h c (regularFile ''report.html.bak'') \<and>
            \<not> isTemplateFile h c (regularFile ''html.txt'') \<and>
            \<not> isTemplateFile h c (regularFile ''xhtml'')) \<and>
         (filter (isTemplateFile h c) files = [] \<longrightarrow> buildPathsToFiles h c dir = Inr [])"
proof -
  have 1: "buildPathsToFiles h c dir =
           Inr (map (\<lambda>f. completePathToFile h c (listingPath h c dir) (Name f))
                  (filter (isTemplateFile h c) files))"
    using assms by (simp add: buildPathsToFiles_eq)
  have 2: "\<forall>f\<in>set files. isTemplateFile h c f \<longrightarrow>
            \<not> IsDir f \<and> (\<exists>stem. Name f = stem @ ''.'' @ Extension c)"
    using isTemplateFile_name(1,2) by blast
  have 3: "Extension c = ''html'' \<longrightarrow>
            \<not> isTemplateFile h c (regularFile ''report.html.bak'') \<and>
            \<not> isTemplateFile h c (regularFile ''html.txt'') \<and>
            \<not> isTemplateFile h c (regularFile ''xhtml'')"
    by (cases "GOOS h") (simp_all add: isTemplateFile_def regularFile_def Ext_def backslash_def)
  from 1 2 3 show ?thesis by simp
qed

lemma tree_app_listing:
  "readFunc unixHost (onDiskConfig ''templates'' [''app'', ''help''])
     (listingPath unixHost (onDiskConfig ''templates'' [''app'', ''help'']) ''templates/app'') =
   Inr [regularFile ''index.html'', regularFile ''notes.txt'', regularFile ''report.html.bak'']"
  by (simp add: readFunc_def listingPath_def onDiskConfig_def unixHost_def treeReadDir_def)

theorem C4_witness:
  "readFunc unixHost (onDiskConfig ''templates'' [''app'', ''help''])
     (listingPath unixHost (onDiskConfig ''templates'' [''app'', ''help'']) ''templates/app'') =
     Inr [regularFile ''index.html'', regularFile ''notes.txt'', regularFile ''report.html.bak''] \<and>
   buildPathsToFiles unixHost (onDiskConfig ''templates'' [''app'', ''help'']) ''templates/app'' =
     Inr [''templates/app/index.html'']"
  using C4_discovery_exact_extension [OF tree_app_listing] tree_app_listing
  by (simp add: isTemplateFile_def regularFile_def Ext_def completePathToFile_def listingPath_def
      onDiskConfig_def unixHost_def cleanJoin_def FromSlash_def defaultExtension_def)

text \<open>
  C5, in the form that holds of the code. The check of the subdirectory names belongs to the on-disk branch
  of \<open>validate\<close>: for every on-disk configuration that \<open>validate\<close> accepts, every entry of
  the subdirectory list is non-blank after trimming, both as the caller gave it and as
  \<open>validate\<close> leaves it (trimmed, in native form, and not empty). For an embedded
  configuration the list is not looked at.
\<close>

theorem C5_on_disk_subdirs_not_blank:
  assumes "validate h c = (None, c')" and "\<not> UseEmbedded c"
  shows "(\<forall>p\<in>set (SubDirs c). TrimSpace p \<noteq> []) \<and>
         (\<forall>p\<in>set (SubDirs c'). p \<noteq> [] \<and> TrimSpace p = p)"
proof -
  from assms have a: "\<forall>p\<in>set (SubDirs c). TrimSpace p \<noteq> []"
    by (simp add: validate_ok(2))
  from assms have "SubDirs c' = map (\<lambda>p. FromSlash (GOOS h) (TrimSpace p)) (SubDirs c)"
    by (simp add: validate_ok(1) [OF assms(1)])
  with a have "\<forall>p\<in>set (SubDirs c'). p \<noteq> [] \<and> TrimSpace p = p"
    by (auto simp: FromSlash_Nil_iff TrimSpace_FromSlash_TrimSpace)
  with a show ?thesis by simp
qed

text \<open>This form of C5 on the template tree, with a base path and a subdirectory to be trimmed.\<close>

theorem C5_witness:
  "validate unixHost (onDiskConfig '' templates '' ['' app'', ''help '']) =
     (None, onDiskConfig ''templates'' [''app'', ''help'']) \<and>
   \<not> UseEmbedded (onDiskConfig '' templates '' ['' app'', ''help '']) \<and>
   list_all (\<lambda>p. TrimSpace p \<noteq> []) (SubDirs (onDiskConfig '' templates '' ['' app'', ''help ''])) \<and>
   list_all (\<lambda>p. p \<noteq> [] \<and> TrimSpace p = p) (SubDirs (onDiskConfig ''templates'' [''app'', ''help'']))"
proof -
  have e: "\<not> UseEmbedded (onDiskConfig '' templates '' ['' app'', ''help ''])"
    by (simp add: onDiskConfig_def)
  from C5_on_disk_subdirs_not_blank [OF validate_tree e] validate_tree e
  show ?thesis unfolding list_all_iff by blast
qed

text \<open>
  For the embedded mode C5 fails: \<open>validate\<close> accepts an
  embedded configuration whose only subdirectory is a single space, and leaves it as it is.
\<close>

theorem C5_counterexample:
  "fst (validate unixHost (embeddedConfig ''templates'' ['' ''])) = None \<and>
   UseEmbedded (embeddedConfig ''templates'' ['' '']) \<and>
   SubDirs (snd (validate unixHost (embeddedConfig ''templates'' ['' '']))) = ['' ''] \<and>
   TrimSpace '' '' = []"
  by (simp add: validate_def Let_def embeddedConfig_def unixHost_def TrimSpace_def isSpace_def
      defaultExtension_def)

text \<open>
  C6. After a successful \<open>Build\<close>, the group stored under the name of a subdirectory that
  has template files is what the engine made of the subdirectory's own paths followed by
  the paths of the base directory.
\<close>

theorem C6_subdirectory_group_sources:
  assumes "Build eng h c0 lg = (None, c, lg')"
    and "subDir \<in> set (SubDirs c)"
    and "buildPathsToFiles h c (completePathToSubDir h c subDir) = Inr subdirFilepaths"
    and "subdirFilepaths \<noteq> []"
    and "buildPathsToFiles h c (BasePath c) = Inr baseFilePaths"
  shows "\<exists>t. ParseFiles eng (FuncMap c) (subdirFilepaths @ baseFilePaths) = Inr t \<and>
             templates c subDir = Some t"
proof -
  from Build_ok [OF assms(1)] assms(5) obtain tm0
    where "buildSubDirs eng h c baseFilePaths (SubDirs c) tm0 lg = (None, templates c, lg')"
    by auto
  from buildSubDirs_ok_stored [OF this assms(2,3,4)] show ?thesis .
qed

text \<open>C6 on the template tree: the group of \<open>app\<close> is its page followed by the two shared files.\<close>

theorem C6_witness:
  "Build treeEngine unixHost (onDiskConfig '' templates '' ['' app'', ''help '']) [] =
     (None, builtConfig, []) \<and>
   ''app'' \<in> set (SubDirs builtConfig) \<and>
   buildPathsToFiles unixHost builtConfig (completePathToSubDir unixHost builtConfig ''app'') =
     Inr [''templates/app/index.html''] \<and>
   buildPathsToFiles unixHost builtConfig (BasePath builtConfig) =
     Inr [''templates/footer.html'', ''templates/header.html''] \<and>
   templates builtConfig ''app'' =
     Some ([''templates/app/index.html''] @ [''templates/footer.html'', ''templates/header.html''])"
proof -
  have s: "''app'' \<in> set (SubDirs builtConfig)"
    by (simp add: builtConfig_def onDiskConfig_fields)
  have a: "buildPathsToFiles unixHost builtConfig (completePathToSubDir unixHost builtConfig ''app'') =
     Inr [''templates/app/index.html'']"
    by (simp add: builtConfig_def tree_subdir_path tree_app_discovery)
  have b: "buildPathsToFiles unixHost builtConfig (BasePath builtConfig) =
     Inr [''templates/footer.html'', ''templates/header.html'']"
    by (simp add: builtConfig_def onDiskConfig_fields tree_base_discovery)
  have n: "[''templates/app/index.html''] \<noteq> []" by simp
  from C6_subdirectory_group_sources [OF Build_tree s a n b] obtain t
    where "ParseFiles treeEngine (FuncMap builtConfig)
             ([''templates/app/index.html''] @ [''templates/footer.html'', ''templates/header.html'']) = Inr t"
      and "templates builtConfig ''app'' = Some t"
    by blast
  then have "templates builtConfig ''app'' =
     Some ([''templates/app/index.html''] @ [''templates/footer.html'', ''templates/header.html''])"
    by (simp add: treeEngine_ParseFiles)
  with Build_tree s a b show ?thesis by blast
qed

text \<open>
  C7. In embedded mode the directory path that is listed and every path that
  \<open>buildPathsToFiles\<close> returns have forward slashes for all their separators; on a host
  whose separator is the backslash none of them contains a backslash.
\<close>

theorem C7_embedded_paths_use_forward_slashes:
  assumes "UseEmbedded c" and "buildPathsToFiles h c dir = Inr paths"
  shows "slashSeparated (GOOS h) (listingPath h c dir) \<and>
         list_all (slashSeparated (GOOS h)) paths \<and>
         (GOOS h = Windows \<longrightarrow>
            backslash \<notin> set (listingPath h c dir) \<and> list_all (\<lambda>p. backslash \<notin> set p) paths)"
proof -
  from assms(1) have d: "slashSeparated (GOOS h) (listingPath h c dir)"
    by (simp add: listingPath_def slashSeparated_ToSlash)
  from assms have p: "list_all (slashSeparated (GOOS h)) paths"
    by (auto simp: buildPathsToFiles_eq completePathToFile_def slashSeparated_ToSlash list_all_iff
        split: sum.splits)
  from d p show ?thesis
    by (auto simp: slashSeparated_Windows list_all_iff)
qed

lemma windows_embedded_discovery:
  "buildPathsToFiles windowsHost (embeddedConfig ''templates'' [''app''])
     (''templates'' @ [backslash] @ ''app'') = Inr [''templates/app/index.html'']"
  by (simp add: buildPathsToFiles_def listingPath_def readFunc_def embed_ReadDir_def
      embeddedConfig_def windowsHost_def ToSlash_def FromSlash_def cleanJoin_def backslash_def
      treeReadDir_def regularFile_def Ext_def completePathToFile_def defaultExtension_def)

theorem C7_witness:
  "UseEmbedded (embeddedConfig ''templates'' [''app'']) \<and>
   buildPathsToFiles windowsHost (embeddedConfig ''templates'' [''app''])
     (''templates'' @ [backslash] @ ''app'') = Inr [''templates/app/index.html''] \<and>
   listingPath windowsHost (embeddedConfig ''templates'' [''app''])
     (''templates'' @ [backslash] @ ''app'') = ''templates/app'' \<and>
   backslash \<notin> set (listingPath windowsHost (embeddedConfig ''templates'' [''app''])
     (''templates'' @ [backslash] @ ''app'')) \<and>
   list_all (\<lambda>p. backslash \<notin> set p) [''templates/app/index.html'']"
proof -
  have e: "UseEmbedded (embeddedConfig ''templates'' [''app''])"
    by (simp add: embeddedConfig_def)
  have l: "listingPath windowsHost (embeddedConfig ''templates'' [''app''])
     (''templates'' @ [backslash] @ ''app'') = ''templates/app''"
    by (simp add: listingPath_def embeddedConfig_def windowsHost_def ToSlash_def backslash_def)
  have w: "GOOS windowsHost = Windows" by (simp add: windowsHost_def)
  from C7_embedded_paths_use_forward_slashes [OF e windows_embedded_discovery] w
  have "backslash \<notin> set (listingPath windowsHost (embeddedConfig ''templates'' [''app''])
     (''templates'' @ [backslash] @ ''app'')) \<and>
   list_all (\<lambda>p. backslash \<notin> set p) [''templates/app/index.html'']"
    by blast
  with e l windows_embedded_discovery show ?thesis by blast
qed

text \<open>
  C8. \<open>addInt\<close> applied to 3 and 4 gives 7, and \<open>dateReformat\<close> applied to
  \<open>2020-01-32\<close>, which is no calendar date, gives the input string back for every target
  format and every implementation of the formatting.
\<close>

theorem C8_addInt_dateReformat:
  "FuncAddInt 3 4 = 7 \<and> FuncDateReformat Format ''2020-01-32'' format = ''2020-01-32''"
  by (simp add: FuncAddInt_def FuncDateReformat_def time_Parse_def isDigit_def digit_def
      daysIn_def)

text \<open>
  C9. \<open>Show\<close> adds the dot and the configured extension to the template name exactly when
  the final element of the name has no dot. A name such as \<open>report.backup\<close> is handed to
  the engine as it is, whatever the configured extension.
\<close>

theorem C9_extension_added_only_without_dot:
  "templateNameWithExt h c templateName =
     (if CHR ''.'' \<in> set (lastElement (GOOS h) templateName) then templateName
      else templateName @ ''.'' @ Extension c) \<and>
   templateNameWithExt h c ''report.backup'' = ''report.backup'' \<and>
   (CHR ''.'' \<in> set (lastElement (GOOS h) templateName) \<longrightarrow>
      Show eng h c w subdir templateName injectedData lg =
        (case templates c subdir of
           None \<Rightarrow>
             (w @ [http_Error (''templates.Show: invalid subdirectory '' @ [CHR 0x27] @ subdir @ [CHR 0x27])
                     500], lg)
         | Some t \<Rightarrow>
             (case ExecuteTemplate eng t templateName (renderData c injectedData) of
                (out, None) \<Rightarrow> (w @ map Write out, lg)
              | (out, Some err) \<Rightarrow>
                  (w @ map Write out @ [http_Error (Error err) 404],
                   lg @ [''templates.Show: error during execute '' @ Error err]))))"
proof -
  have 1: "templateNameWithExt h c templateName =
     (if CHR ''.'' \<in> set (lastElement (GOOS h) templateName) then templateName
      else templateName @ ''.'' @ Extension c)" for templateName
    by (simp add: templateNameWithExt_def Ext_Nil_iff)
  have 2: "templateNameWithExt h c ''report.backup'' = ''report.backup''"
    by (cases "GOOS h") (simp_all add: 1 lastElement_def backslash_def)
  have 3: "Show eng h c w subdir templateName injectedData lg =
        (case templates c subdir of
           None \<Rightarrow>
             (w @ [http_Error (''templates.Show: invalid subdirectory '' @ [CHR 0x27] @ subdir @ [CHR 0x27])
                     500], lg)
         | Some t \<Rightarrow>
             (case ExecuteTemplate eng t templateName (renderData c injectedData) of
                (out, None) \<Rightarrow> (w @ map Write out, lg)
              | (out, Some err) \<Rightarrow>
                  (w @ map Write out @ [http_Error (Error err) 404],
                   lg @ [''templates.Show: error during execute '' @ Error err])))"
    if "CHR ''.'' \<in> set (lastElement (GOOS h) templateName)"
    using that
    by (simp add: Show_def 1 Let_def StatusInternalServerError_def StatusNotFound_def
        log_Println_def split: option.splits prod.splits)
  from 1 2 3 show ?thesis by blast
qed

text \<open>C9 on the built tree: \<open>report.backup\<close> reaches the engine unchanged, \<open>index\<close> becomes \<open>index.html\<close>.\<close>

theorem C9_witness:
  "CHR ''.'' \<in> set (lastElement (GOOS unixHost) ''report.backup'') \<and>
   Show treeEngine unixHost builtConfig [] ''app'' ''report.backup'' () [] =
     ([http_Error ''html/template: report.backup is undefined'' 404],
      [''templates.Show: error during execute html/template: report.backup is undefined'']) \<and>
   templateNameWithExt unixHost builtConfig ''index'' = ''index.html'' \<and>
   Show treeEngine unixHost builtConfig [] ''app'' ''index'' () [] =
     ([Write ''<html>'', Write ''index.html'', Write ''</html>''], [])"
proof -
  have d: "CHR ''.'' \<in> set (lastElement (GOOS unixHost) ''report.backup'')"
    by (simp add: lastElement_def unixHost_def)
  from C9_extension_added_only_without_dot
    [of unixHost builtConfig "''report.backup''" treeEngine "[]" "''app''" "()" "[]"] d
  have a: "Show treeEngine unixHost builtConfig [] ''app'' ''report.backup'' () [] =
     ([http_Error ''html/template: report.backup is undefined'' 404],
      [''templates.Show: error during execute html/template: report.backup is undefined''])"
    by (simp add: builtConfig_templates treeEngine_ExecuteTemplate)
  have b: "Show treeEngine unixHost builtConfig [] ''app'' ''index'' () [] =
     ([Write ''<html>'', Write ''index.html'', Write ''</html>''], [])"
    by (simp add: Show_def builtConfig_names builtConfig_templates treeEngine_ExecuteTemplate)
  from d a b builtConfig_names(2) show ?thesis by blast
qed

text \<open>
  C10. \<open>validate\<close> is idempotent: when it accepts a configuration, a second run on the
  configuration it left behind accepts it again and changes no field of it.
\<close>

theorem C10_validate_idempotent:
  assumes "validate h c = (None, c')"
  shows "validate h c' = (None, c')"
proof -
  let ?b = "TrimSpace (BasePath c)"
  from assms have b: "?b \<noteq> []"
    by (auto simp: validate_def Let_def split: if_splits)
  from assms b have st: "UseEmbedded c \<or> \<not> IsNotExist (os_Stat h ?b)"
    by (auto simp: validate_def Let_def split: if_splits)
  define subs where "subs = (if \<not> UseEmbedded c then validateSubDirs h ?b (SubDirs c) else (None, SubDirs c))"
  from assms b st have s1: "fst subs = None"
    by (auto simp: validate_def Let_def subs_def split: if_splits prod.splits)
  define ext where "ext = (if TrimSpace (Extension c) = [] then defaultExtension else TrimSpace (Extension c))"
  from assms b st s1 have emb: "\<not> (UseEmbedded c \<and> EmbeddedFS c = None)"
    by (auto simp: validate_def Let_def subs_def split: if_splits prod.splits)
  from assms b st s1 emb have c': "c' = c\<lparr>BasePath := ?b, SubDirs := snd subs, Extension := ext\<rparr>"
    by (auto simp: validate_def Let_def subs_def ext_def split: if_splits prod.splits)
  have e1: "TrimSpace ext = ext"
    by (simp add: ext_def TrimSpace_idem TrimSpace_defaultExtension)
  have e2: "ext \<noteq> []"
    by (simp add: ext_def defaultExtension_def)
  have s2: "\<not> UseEmbedded c \<Longrightarrow> validateSubDirs h ?b (snd subs) = (None, snd subs)"
    using s1 by (intro validateSubDirs_idem [of h ?b "SubDirs c"]) (simp add: subs_def prod_eq_iff)
  show ?thesis
    unfolding c' using b st e1 e2 s2 emb
    by (auto simp: validate_def Let_def TrimSpace_idem split: prod.splits)
qed

text \<open>C10 on the template tree: the second run returns the normalised configuration unchanged.\<close>

theorem C10_witness:
  "validate unixHost (onDiskConfig '' templates '' ['' app'', ''help '']) =
     (None, onDiskConfig ''templates'' [''app'', ''help'']) \<and>
   validate unixHost (onDiskConfig ''templates'' [''app'', ''help'']) =
     (None, onDiskConfig ''templates'' [''app'', ''help''])"
  using C10_validate_idempotent [OF validate_tree] validate_tree by blast

end
